theory Spec2Isabelle
  imports Main "HOL-Library.Sublist"
begin

section \<open>JavaScript values as the program sees them\<close>

text \<open>
  The values that flow through \<^verbatim>\<open>index.js\<close>: JSON data from the two endpoints, from the
  cache file and from the rendered page, plus \<^verbatim>\<open>undefined\<close> (a property that is not
  there) and the built-in functions that a lookup on a plain object literal can reach
  through \<^verbatim>\<open>Object.prototype\<close>.

  A number is an \<open>int\<close>: the program tests numbers for truthiness and for strict equality
  and subtracts one from a parsed choice; fractions (coordinates) are only ever copied.
  An object carries its own properties in enumeration order.
\<close>

datatype jsval =
    JUndefined
  | JNull
  | JBool bool
  | JNum int
  | JStr string
  | JArr "jsval list"
  | JObj "(string \<times> jsval) list"
  | JFunction string

datatype js_error =
    TypeError string
  | Error string
  | SyntaxError string
  | HostError string

text \<open>\<^verbatim>\<open>if (v)\<close>, \<^verbatim>\<open>!v\<close>, \<^verbatim>\<open>a || b\<close>: JavaScript's ToBoolean.\<close>

fun truthy :: "jsval \<Rightarrow> bool" where
  "truthy JUndefined = False"
| "truthy JNull = False"
| "truthy (JBool b) = b"
| "truthy (JNum n) = (n \<noteq> 0)"
| "truthy (JStr s) = (s \<noteq> [])"
| "truthy (JArr xs) = True"
| "truthy (JObj kvs) = True"
| "truthy (JFunction f) = True"

fun nullish :: "jsval \<Rightarrow> bool" where
  "nullish JUndefined = True"
| "nullish JNull = True"
| "nullish v = False"

text \<open>\<^verbatim>\<open>a || b\<close> on values.\<close>

definition js_or :: "jsval \<Rightarrow> jsval \<Rightarrow> jsval" where
  "js_or a b = (if truthy a then a else b)"

datatype js_type = TUndefined | TObject | TBoolean | TNumber | TString | TFunction

text \<open>\<^verbatim>\<open>typeof v\<close> (\<^verbatim>\<open>typeof null\<close> is \<^verbatim>\<open>'object'\<close>).\<close>

fun js_typeof :: "jsval \<Rightarrow> js_type" where
  "js_typeof JUndefined = TUndefined"
| "js_typeof JNull = TObject"
| "js_typeof (JBool b) = TBoolean"
| "js_typeof (JNum n) = TNumber"
| "js_typeof (JStr s) = TString"
| "js_typeof (JArr xs) = TObject"
| "js_typeof (JObj kvs) = TObject"
| "js_typeof (JFunction f) = TFunction"

text \<open>
  \<^verbatim>\<open>a === b\<close>. Values of different types are never equal; primitives of one type are
  compared by value. Arrays and objects are compared by identity: the two sides of the
  only \<^verbatim>\<open>===\<close> on data (line 107) come from two different parsed documents, so two such
  values are never the same object.
\<close>

fun strict_eq :: "jsval \<Rightarrow> jsval \<Rightarrow> bool" where
  "strict_eq JUndefined JUndefined = True"
| "strict_eq JNull JNull = True"
| "strict_eq (JBool a) (JBool b) = (a = b)"
| "strict_eq (JNum a) (JNum b) = (a = b)"
| "strict_eq (JStr a) (JStr b) = (a = b)"
| "strict_eq (JFunction a) (JFunction b) = (a = b)"
| "strict_eq a b = False"

text \<open>
  Reading a property with a fixed name (\<^verbatim>\<open>s.EntityID\<close>, \<^verbatim>\<open>v.erpNumber\<close>, ...). None of the
  names the program reads this way is a property of a built-in prototype, so on anything
  but an object with that own property the read gives \<^verbatim>\<open>undefined\<close>. On \<^verbatim>\<open>null\<close> and
  \<^verbatim>\<open>undefined\<close> the read throws; that is \<open>member\<close>.
\<close>

fun get_prop :: "jsval \<Rightarrow> string \<Rightarrow> jsval" where
  "get_prop (JObj kvs) k = (case map_of kvs k of Some v \<Rightarrow> v | None \<Rightarrow> JUndefined)"
| "get_prop v k = JUndefined"

definition member :: "jsval \<Rightarrow> string \<Rightarrow> js_error + jsval" where
  "member v k =
     (if nullish v then Inl (TypeError (''Cannot read properties of null or undefined (reading '' @ k @ '')''))
      else Inr (get_prop v k))"

text \<open>\<^verbatim>\<open>v?.k\<close>: optional chaining.\<close>

definition opt_member :: "jsval \<Rightarrow> string \<Rightarrow> jsval" where
  "opt_member v k = (if nullish v then JUndefined else get_prop v k)"

subsection \<open>ToString, as template literals and property keys use it\<close>

text \<open>
  An object is converted by the inherited \<^verbatim>\<open>toString\<close> (the data is taken not to carry a
  \<^verbatim>\<open>toString\<close> or \<^verbatim>\<open>valueOf\<close> property of its own), an array by joining its elements.
\<close>

fun show_nat :: "nat \<Rightarrow> string" where
  "show_nat n =
     (if n < 10 then [''0123456789'' ! n]
      else show_nat (n div 10) @ [''0123456789'' ! (n mod 10)])"

declare show_nat.simps [simp del]

definition show_int :: "int \<Rightarrow> string" where
  "show_int i = (if i < 0 then CHR ''-'' # show_nat (nat (- i)) else show_nat (nat i))"

fun join_strs :: "string \<Rightarrow> string list \<Rightarrow> string" where
  "join_strs sep [] = []"
| "join_strs sep [x] = x"
| "join_strs sep (x # y # ys) = x @ sep @ join_strs sep (y # ys)"

fun to_string :: "jsval \<Rightarrow> string" where
  "to_string JUndefined = ''undefined''"
| "to_string JNull = ''null''"
| "to_string (JBool b) = (if b then ''true'' else ''false'')"
| "to_string (JNum n) = show_int n"
| "to_string (JStr s) = s"
| "to_string (JArr xs) =
     join_strs '','' (map (\<lambda>x. if nullish x then [] else to_string x) xs)"
| "to_string (JObj kvs) = ''[object Object]''"
| "to_string (JFunction f) = ''function '' @ f @ ''() { [native code] }''"

text \<open>\<^verbatim>\<open>arr.join(sep)\<close>: \<^verbatim>\<open>null\<close> and \<^verbatim>\<open>undefined\<close> elements give the empty string.\<close>

definition array_join :: "string \<Rightarrow> jsval list \<Rightarrow> string" where
  "array_join sep xs = join_strs sep (map (\<lambda>x. if nullish x then [] else to_string x) xs)"

subsection \<open>What survives \<^verbatim>\<open>JSON.parse(JSON.stringify(v))\<close>\<close>

text \<open>
  \<^verbatim>\<open>JSON.stringify\<close> writes \<^verbatim>\<open>null\<close> for an array element that is \<^verbatim>\<open>undefined\<close> or a
  function, and leaves out an object property with such a value.
\<close>

fun unserialisable :: "jsval \<Rightarrow> bool" where
  "unserialisable JUndefined = True"
| "unserialisable (JFunction f) = True"
| "unserialisable v = False"

fun json_clone :: "jsval \<Rightarrow> jsval" where
  "json_clone JUndefined = JNull"
| "json_clone (JFunction f) = JNull"
| "json_clone JNull = JNull"
| "json_clone (JBool b) = JBool b"
| "json_clone (JNum n) = JNum n"
| "json_clone (JStr s) = JStr s"
| "json_clone (JArr xs) = JArr (map json_clone xs)"
| "json_clone (JObj kvs) =
     JObj (map (\<lambda>kv. (fst kv, json_clone (snd kv))) (filter (\<lambda>kv. \<not> unserialisable (snd kv)) kvs))"

section \<open>The store directory\<close>

subsection \<open>Amenity codes (lines 18--46)\<close>

text \<open>The object literal \<^verbatim>\<open>icon_cypher\<close>: its own properties.\<close>

definition icon_cypher :: "(string \<times> string) list" where
  "icon_cypher =
     [(''eCharger'', ''Electric Car Charger''),
      (''hotDrinks'', ''Hot Drinks''),
      (''garage'', ''Parking Garage''),
      (''freeWiFi'', ''Free Wi-Fi''),
      (''parking'', ''Parking''),
      (''disParking'', ''Disabled Parking'')]"

text \<open>
  \<^verbatim>\<open>icon_cypher\<close> is written as an object literal, so its prototype is
  \<^verbatim>\<open>Object.prototype\<close> and a read \<^verbatim>\<open>icon_cypher[k]\<close> that finds no own property goes on
  to the properties every object inherits. These are the ones of ECMAScript (with
  Annex B); the accessor \<^verbatim>\<open>__proto__\<close> gives \<^verbatim>\<open>Object.prototype\<close> itself, an object with
  no enumerable property of its own.
\<close>

definition object_prototype :: "(string \<times> jsval) list" where
  "object_prototype =
     [(''constructor'', JFunction ''Object''),
      (''hasOwnProperty'', JFunction ''hasOwnProperty''),
      (''isPrototypeOf'', JFunction ''isPrototypeOf''),
      (''propertyIsEnumerable'', JFunction ''propertyIsEnumerable''),
      (''toLocaleString'', JFunction ''toLocaleString''),
      (''toString'', JFunction ''toString''),
      (''valueOf'', JFunction ''valueOf''),
      (''__defineGetter__'', JFunction ''__defineGetter__''),
      (''__defineSetter__'', JFunction ''__defineSetter__''),
      (''__lookupGetter__'', JFunction ''__lookupGetter__''),
      (''__lookupSetter__'', JFunction ''__lookupSetter__''),
      (''__proto__'', JObj [])]"

text \<open>\<^verbatim>\<open>icon_cypher[code]\<close>: the key is the code converted to a string.\<close>

definition icon_cypher_get :: "jsval \<Rightarrow> jsval" where
  "icon_cypher_get code =
     (case map_of icon_cypher (to_string code) of
        Some label \<Rightarrow> JStr label
      | None \<Rightarrow>
          (case map_of object_prototype (to_string code) of
             Some inherited \<Rightarrow> inherited
           | None \<Rightarrow> JUndefined))"

text \<open>One turn of the loop of \<^verbatim>\<open>parseServices\<close>, for the index \<open>i\<close>.\<close>

definition services_step :: "jsval \<Rightarrow> nat \<Rightarrow> jsval list \<Rightarrow> jsval list" where
  "services_step location i services =
     (let code = get_prop location (''INFOICON'' @ show_nat i) in
      if truthy code then
        (let name = icon_cypher_get code in
         if truthy name then services @ [name] else services @ [code])
      else services)"

definition parseServices :: "jsval \<Rightarrow> jsval list" where
  "parseServices location = fold (services_step location) [1..<42] []"

subsection \<open>Stores, the environment and the state of a run\<close>

record store =
  store_id :: jsval
  address :: string
  postalCode :: jsval
  latitude :: jsval
  longitude :: jsval
  services :: "jsval list"

text \<open>
  The answer of \<^verbatim>\<open>fetch(url)\<close>: the promise rejects (no network), or it gives a response
  with its \<^verbatim>\<open>ok\<close> flag and, when the body is JSON, the value \<^verbatim>\<open>response.json()\<close> gives
  (\<open>None\<close>: the body does not parse and \<^verbatim>\<open>response.json()\<close> rejects).
\<close>

datatype fetch_result =
    Rejected js_error
  | Response bool "jsval option"

text \<open>
  What the program reads and cannot change: the three environment variables, the
  network, and the browser (whether launching, opening a page and navigating fail, and
  the value of \<^verbatim>\<open>window.__NUXT__\<close> on the page of a URL).
\<close>

record env =
  MAPS_HOST :: "string option"
  MAPS_API_KEY :: "string option"
  LIDL_STOCK_API :: "string option"
  fetch :: "string \<Rightarrow> fetch_result"
  launch_error :: "js_error option"
  newPage_error :: "js_error option"
  goto_error :: "string \<Rightarrow> js_error option"
  nuxt :: "string \<Rightarrow> jsval"

text \<open>The lines the program prints, with the values it puts in them.\<close>

datatype message =
    MsgMissingStockApi
  | MsgMissingMapsEnv
  | MsgFetchStoresFailed
  | MsgCheckingStock
  | MsgNoStockData
  | MsgInStock string
  | MsgLowStock string
  | MsgUnknownStock string
  | MsgNotInStock string
  | MsgFoundStores nat
  | MsgFetchProductFailed
  | MsgSearching jsval
  | MsgFoundVariants nat
  | MsgVariantLine nat jsval jsval
  | MsgInvalidSelection
  | MsgInvalidPostcode
  | MsgNoStoresForPostcode string
  | MsgNotCached
  | MsgNoCachedStores
  | MsgTotalStores nat
  | MsgTable "store list"
  | MsgMenu
  | MsgBye

text \<open>
  What a run changes: the answers the user has still to type, the cache file
  \<^verbatim>\<open>stores.json\<close> (\<open>None\<close>: no such file; otherwise the array of stores the document
  holds), the number of browsers launched and not closed, and the console.
\<close>

record world =
  answers :: "string list"
  cache_file :: "store list option"
  open_browsers :: nat
  console :: "message list"

text \<open>
  How a call ends: it returns, it throws (an \<^verbatim>\<open>async\<close> function's promise rejects),
  \<^verbatim>\<open>process.exit(n)\<close> ends the process, or it waits for an answer that never comes.
\<close>

datatype 'a completion =
    Return 'a
  | Throw js_error
  | Exit nat
  | Pending

text \<open>\<^verbatim>\<open>await\<close> and sequencing: everything but a return ends the caller the same way.\<close>

fun then_do ::
  "'a completion \<times> world \<Rightarrow> ('a \<Rightarrow> world \<Rightarrow> 'b completion \<times> world) \<Rightarrow> 'b completion \<times> world"
where
  "then_do (Return a, w) f = f a w"
| "then_do (Throw e, w) f = (Throw e, w)"
| "then_do (Exit n, w) f = (Exit n, w)"
| "then_do (Pending, w) f = (Pending, w)"

definition print :: "message \<Rightarrow> world \<Rightarrow> world" where
  "print m w = w\<lparr>console := console w @ [m]\<rparr>"

text \<open>\<^verbatim>\<open>askQuestion\<close> (lines 27--33): the next answer of the user.\<close>

definition askQuestion :: "world \<Rightarrow> string completion \<times> world" where
  "askQuestion w =
     (case answers w of
        [] \<Rightarrow> (Pending, w)
      | a # rest \<Rightarrow> (Return a, w\<lparr>answers := rest\<rparr>))"

text \<open>An environment variable that is not set, or set to the empty string, is falsy.\<close>

definition unset :: "string option \<Rightarrow> bool" where
  "unset v = (case v of None \<Rightarrow> True | Some s \<Rightarrow> s = [])"

definition env_text :: "string option \<Rightarrow> string" where
  "env_text v = (case v of None \<Rightarrow> ''undefined'' | Some s \<Rightarrow> s)"

subsection \<open>\<^verbatim>\<open>fetchLidlStores\<close> and \<^verbatim>\<open>loadCachedStores\<close> (lines 48--84)\<close>

text \<open>The callback of \<^verbatim>\<open>data.d.results.map\<close>, on a raw entry that is not \<^verbatim>\<open>null\<close>.\<close>

definition make_store :: "jsval \<Rightarrow> store" where
  "make_store s =
     \<lparr>store_id = get_prop s ''EntityID'',
      address = to_string (get_prop s ''AddressLine'') @ '', '' @
                to_string (get_prop s ''PostalCode'') @ '' '' @
                to_string (get_prop s ''Locality''),
      postalCode = get_prop s ''PostalCode'',
      latitude = get_prop s ''Latitude'',
      longitude = get_prop s ''Longitude'',
      services = parseServices s\<rparr>"

text \<open>\<^verbatim>\<open>results.map(...)\<close>: the first \<^verbatim>\<open>null\<close> entry throws at \<^verbatim>\<open>s.EntityID\<close>.\<close>

fun map_stores :: "jsval list \<Rightarrow> js_error + store list" where
  "map_stores [] = Inr []"
| "map_stores (s # rest) =
     (if nullish s then Inl (TypeError ''Cannot read properties of null (reading EntityID)'')
      else (case map_stores rest of
              Inl e \<Rightarrow> Inl e
            | Inr stores \<Rightarrow> Inr (make_store s # stores)))"

text \<open>\<^verbatim>\<open>data.d.results.map(...)\<close> on the parsed body.\<close>

definition stores_of_body :: "jsval \<Rightarrow> js_error + store list" where
  "stores_of_body data =
     (case member data ''d'' of
        Inl e \<Rightarrow> Inl e
      | Inr d \<Rightarrow>
          (case member d ''results'' of
             Inl e \<Rightarrow> Inl e
           | Inr (JArr results) \<Rightarrow> map_stores results
           | Inr other \<Rightarrow> Inl (TypeError ''data.d.results.map is not a function'')))"

text \<open>
  The store as \<^verbatim>\<open>JSON.stringify\<close> writes it and \<^verbatim>\<open>JSON.parse\<close> reads it back: a field that
  is \<^verbatim>\<open>undefined\<close> is left out, and reads as \<^verbatim>\<open>undefined\<close> again.
\<close>

definition json_field :: "jsval \<Rightarrow> jsval" where
  "json_field v = (if unserialisable v then JUndefined else json_clone v)"

definition json_store :: "store \<Rightarrow> store" where
  "json_store s =
     \<lparr>store_id = json_field (store_id s),
      address = address s,
      postalCode = json_field (postalCode s),
      latitude = json_field (latitude s),
      longitude = json_field (longitude s),
      services = map json_clone (services s)\<rparr>"

definition maps_url :: "env \<Rightarrow> string" where
  "maps_url env =
     env_text (MAPS_HOST env) @ ''?key='' @ env_text (MAPS_API_KEY env) @
     ''&$filter=Adresstyp%20eq%201&$format=json&$top=5000''"

definition fetchLidlStores :: "env \<Rightarrow> world \<Rightarrow> store list completion \<times> world" where
  "fetchLidlStores env w =
     (if unset (MAPS_HOST env) then (Exit 1, print MsgMissingMapsEnv w)
      else if unset (MAPS_API_KEY env) then (Exit 1, print MsgMissingMapsEnv w)
      else
        (case fetch env (maps_url env) of
           Rejected e \<Rightarrow> (Exit 1, print MsgFetchStoresFailed w)
         | Response ok body \<Rightarrow>
             if ok then
               (case body of
                  None \<Rightarrow> (Throw (SyntaxError ''Unexpected token in JSON''), w)
                | Some data \<Rightarrow>
                    (case stores_of_body data of
                       Inl e \<Rightarrow> (Throw e, w)
                     | Inr stores \<Rightarrow>
                         (Return stores, w\<lparr>cache_file := Some (map json_store stores)\<rparr>)))
             else (Exit 1, print MsgFetchStoresFailed w)))"

definition loadCachedStores :: "world \<Rightarrow> store list option" where
  "loadCachedStores w = cache_file w"

section \<open>Stock availability (lines 86--129)\<close>

definition stock_url :: "env \<Rightarrow> jsval \<Rightarrow> string \<Rightarrow> string" where
  "stock_url env productId storeIds =
     env_text (LIDL_STOCK_API env) @ to_string productId @ ''?storeids='' @ storeIds"

definition fetchProductAvailability :: "env \<Rightarrow> jsval \<Rightarrow> string \<Rightarrow> js_error + jsval" where
  "fetchProductAvailability env productId storeIds =
     (case fetch env (stock_url env productId storeIds) of
        Rejected e \<Rightarrow> Inl e
      | Response ok body \<Rightarrow>
          if ok then
            (case body of
               None \<Rightarrow> Inl (SyntaxError ''Unexpected token in JSON'')
             | Some data \<Rightarrow> Inr data)
          else Inl (Error ''Failed to fetch product availability''))"

text \<open>
  \<^verbatim>\<open>stores.find(s => s.id === stockInfo.storeId)\<close> (line 107). The callback reads
  \<^verbatim>\<open>stockInfo.storeId\<close> each time it is called, so a \<^verbatim>\<open>null\<close> observation throws at the
  first store, and not at all when there is no store.
\<close>

fun find_store :: "store list \<Rightarrow> jsval \<Rightarrow> js_error + store option" where
  "find_store [] stockInfo = Inr None"
| "find_store (s # rest) stockInfo =
     (case member stockInfo ''storeId'' of
        Inl e \<Rightarrow> Inl e
      | Inr storeId \<Rightarrow>
          if strict_eq (store_id s) storeId then Inr (Some s) else find_store rest stockInfo)"

text \<open>
  The body of the loop over the stock response (lines 106--126), on the list of stores
  found in stock so far and the world. The \<^verbatim>\<open>switch\<close> compares the status with \<^verbatim>\<open>===\<close>.
\<close>

definition stock_step ::
  "store list \<Rightarrow> jsval \<Rightarrow> store list \<times> world \<Rightarrow> js_error + store list \<times> world"
where
  "stock_step stores stockInfo st =
     (case find_store stores stockInfo of
        Inl e \<Rightarrow> Inl e
      | Inr None \<Rightarrow> Inr st
      | Inr (Some store) \<Rightarrow>
          (let status = get_prop stockInfo ''storeAvailabilityIndicator'' in
           if strict_eq status (JStr ''AVAILABLE'') then
             Inr (fst st @ [store], print (MsgInStock (address store)) (snd st))
           else if strict_eq status (JStr ''LOW_STOCK'') then
             Inr (fst st @ [store], print (MsgLowStock (address store)) (snd st))
           else if strict_eq status (JStr ''UNKNOWN'') then
             Inr (fst st, print (MsgUnknownStock (address store)) (snd st))
           else Inr (fst st, print (MsgNotInStock (address store)) (snd st))))"

fun stock_loop ::
  "store list \<Rightarrow> jsval list \<Rightarrow> store list \<times> world \<Rightarrow> store list completion \<times> world"
where
  "stock_loop stores [] st = (Return (fst st), snd st)"
| "stock_loop stores (stockInfo # rest) st =
     (case stock_step stores stockInfo st of
        Inl e \<Rightarrow> (Throw e, snd st)
      | Inr st' \<Rightarrow> stock_loop stores rest st')"

definition findInStockStores :: "env \<Rightarrow> jsval \<Rightarrow> store list \<Rightarrow> world \<Rightarrow> unit completion \<times> world" where
  "findInStockStores env productId stores w =
     (let w1 = print MsgCheckingStock w;
          storeIds = map store_id stores
      in case fetchProductAvailability env productId (array_join '','' storeIds) of
           Inl e \<Rightarrow> (Throw e, w1)
         | Inr data \<Rightarrow>
             (case data of
                JArr (stockInfo # rest) \<Rightarrow>
                  then_do (stock_loop stores (stockInfo # rest) ([], w1))
                    (\<lambda>inStockStores w2. (Return (), print (MsgFoundStores (length inStockStores)) w2))
              | other \<Rightarrow> (Return (), print MsgNoStockData w1)))"

section \<open>Product variants (lines 131--152)\<close>

definition is_digit :: "char \<Rightarrow> bool" where
  "is_digit c = (c \<in> set ''0123456789'')"

text \<open>
  \<^verbatim>\<open>productUrl.match(/p(\d+)/)?.[1]\<close>: the digits after the first \<^verbatim>\<open>p\<close> that a digit
  follows, as many as there are; \<open>None\<close> when there is no such \<^verbatim>\<open>p\<close>.
\<close>

fun match_product_id :: "string \<Rightarrow> string option" where
  "match_product_id [] = None"
| "match_product_id (c # cs) =
     (if c = CHR ''p'' \<and> takeWhile is_digit cs \<noteq> [] then Some (takeWhile is_digit cs)
      else match_product_id cs)"

record product_ref =
  productId :: string
  variants :: "jsval list"
  fullTitle :: jsval

text \<open>\<^verbatim>\<open>window.__NUXT__.data[`&erp${productId}`]\<close>, which both page scripts start with.\<close>

definition nuxt_entry :: "jsval \<Rightarrow> string \<Rightarrow> js_error + jsval" where
  "nuxt_entry state pid =
     (case member state ''data'' of
        Inl e \<Rightarrow> Inl e
      | Inr data \<Rightarrow> member data (''&erp'' @ pid))"

text \<open>\<^verbatim>\<open>Object.values(raw)\<close> on an array or an object.\<close>

fun object_values :: "jsval \<Rightarrow> jsval list" where
  "object_values (JArr xs) = xs"
| "object_values (JObj kvs) = map snd kvs"
| "object_values v = []"

text \<open>The first page script (lines 139--144), given the entry of the product.\<close>

definition page_variants :: "jsval \<Rightarrow> jsval list" where
  "page_variants entry =
     (let raw = opt_member entry ''variants'' in
      if truthy raw then
        (if js_typeof raw = TObject then map json_clone (object_values raw) else [])
      else [])"

text \<open>The second page script (lines 146--148).\<close>

definition page_fullTitle :: "jsval \<Rightarrow> jsval" where
  "page_fullTitle entry = js_or (opt_member (opt_member entry ''keyfacts'') ''fullTitle'') JNull"

text \<open>
  \<^verbatim>\<open>fetchProductVariants\<close>. The browser is counted from \<^verbatim>\<open>puppeteer.launch\<close> to
  \<^verbatim>\<open>browser.close()\<close>; a failure of \<^verbatim>\<open>newPage\<close>, of \<^verbatim>\<open>goto\<close> or of a page script is an
  exception at that line, and no \<^verbatim>\<open>try\<close> surrounds these lines.
\<close>

definition fetchProductVariants :: "env \<Rightarrow> string \<Rightarrow> world \<Rightarrow> product_ref option completion \<times> world" where
  "fetchProductVariants env productUrl w =
     (case match_product_id productUrl of
        None \<Rightarrow> (Return None, w)
      | Some pid \<Rightarrow>
          (case launch_error env of
             Some e \<Rightarrow> (Throw e, w)
           | None \<Rightarrow>
               (let w1 = w\<lparr>open_browsers := Suc (open_browsers w)\<rparr> in
                case newPage_error env of
                  Some e \<Rightarrow> (Throw e, w1)
                | None \<Rightarrow>
                    (case goto_error env productUrl of
                       Some e \<Rightarrow> (Throw e, w1)
                     | None \<Rightarrow>
                         (case nuxt_entry (nuxt env productUrl) pid of
                            Inl e \<Rightarrow> (Throw e, w1)
                          | Inr entry \<Rightarrow>
                              (Return (Some \<lparr>productId = pid,
                                             variants = page_variants entry,
                                             fullTitle = page_fullTitle entry\<rparr>),
                               w1\<lparr>open_browsers := open_browsers w1 - 1\<rparr>))))))"

section \<open>The product search (lines 154--207)\<close>

subsection \<open>\<^verbatim>\<open>parseInt(choice)\<close>\<close>

definition is_space :: "char \<Rightarrow> bool" where
  "is_space c = (c \<in> set [CHR 0x09, CHR 0x0A, CHR 0x0B, CHR 0x0C, CHR 0x0D, CHR 0x20])"

text \<open>The value of a digit in the given radix, if it is one.\<close>

definition digit_value :: "nat \<Rightarrow> char \<Rightarrow> nat option" where
  "digit_value radix c =
     (case map_of (zip ''0123456789abcdef'' [0..<16] @ zip ''ABCDEF'' [10..<16]) c of
        None \<Rightarrow> None
      | Some d \<Rightarrow> if d < radix then Some d else None)"

definition is_radix_digit :: "nat \<Rightarrow> char \<Rightarrow> bool" where
  "is_radix_digit radix c = (digit_value radix c \<noteq> None)"

definition digits_value :: "nat \<Rightarrow> string \<Rightarrow> nat" where
  "digits_value radix ds = fold (\<lambda>c acc. acc * radix + (case digit_value radix c of None \<Rightarrow> 0 | Some d \<Rightarrow> d)) ds 0"

text \<open>The digits at the start of the string, as a number; \<open>None\<close> is \<^verbatim>\<open>NaN\<close>.\<close>

definition parse_digits :: "nat \<Rightarrow> string \<Rightarrow> nat option" where
  "parse_digits radix s =
     (let ds = takeWhile (is_radix_digit radix) s in
      if ds = [] then None else Some (digits_value radix ds))"

text \<open>After the white space and the sign: a \<^verbatim>\<open>0x\<close> prefix makes the number hexadecimal.\<close>

fun parse_magnitude :: "string \<Rightarrow> nat option" where
  "parse_magnitude (a # b # rest) =
     (if a = CHR ''0'' \<and> (b = CHR ''x'' \<or> b = CHR ''X'') then parse_digits 16 rest
      else parse_digits 10 (a # b # rest))"
| "parse_magnitude s = parse_digits 10 s"

fun parse_signed :: "string \<Rightarrow> int option" where
  "parse_signed [] = None"
| "parse_signed (c # rest) =
     (if c = CHR ''-'' then map_option (\<lambda>n. - int n) (parse_magnitude rest)
      else if c = CHR ''+'' then map_option int (parse_magnitude rest)
      else map_option int (parse_magnitude (c # rest)))"

definition js_parseInt :: "string \<Rightarrow> int option" where
  "js_parseInt s = parse_signed (dropWhile is_space s)"

text \<open>
  \<^verbatim>\<open>result.variants[parseInt(choice) - 1]\<close>: \<^verbatim>\<open>undefined\<close> when the index is \<^verbatim>\<open>NaN\<close>, negative
  or past the end.
\<close>

definition variant_at :: "jsval list \<Rightarrow> string \<Rightarrow> jsval" where
  "variant_at vs choice =
     (case js_parseInt choice of
        None \<Rightarrow> JUndefined
      | Some n \<Rightarrow>
          if 1 \<le> n \<and> nat (n - 1) < length vs then vs ! nat (n - 1) else JUndefined)"

subsection \<open>Choosing the variant (lines 165--181)\<close>

text \<open>The \<^verbatim>\<open>forEach\<close> that prints the variants; a \<^verbatim>\<open>null\<close> variant throws at \<^verbatim>\<open>v.fullTitle\<close>.\<close>

fun print_variants :: "nat \<Rightarrow> jsval list \<Rightarrow> world \<Rightarrow> unit completion \<times> world" where
  "print_variants i [] w = (Return (), w)"
| "print_variants i (v # vs) w =
     (if nullish v then (Throw (TypeError ''Cannot read properties of null (reading fullTitle)''), w)
      else print_variants (Suc i) vs
             (print (MsgVariantLine (Suc i)
                       (js_or (js_or (get_prop v ''fullTitle'') (get_prop v ''productTitle''))
                              (get_prop v ''erpNumber''))
                       (js_or (get_prop v ''erpNumber'') (get_prop v ''articleId''))) w))"

text \<open>The variant made up for a product without variants (lines 176--180).\<close>

definition synthetic_variant :: "product_ref \<Rightarrow> jsval" where
  "synthetic_variant result =
     JObj [(''erpNumber'', JStr (productId result)),
           (''articleId'', JStr (productId result)),
           (''fullTitle'', fullTitle result)]"

text \<open>
  The \<^verbatim>\<open>if\<close>/\<^verbatim>\<open>else\<close> of lines 165--181. \<open>Return None\<close>: the flow has printed
  ``invalid selection'' and returns; \<open>Return (Some v)\<close>: \<^verbatim>\<open>selected\<close> is \<open>v\<close>.
\<close>

definition choose_variant :: "product_ref \<Rightarrow> world \<Rightarrow> jsval option completion \<times> world" where
  "choose_variant result w =
     (if 0 < length (variants result) then
        then_do (print_variants 0 (variants result) (print (MsgFoundVariants (length (variants result))) w))
          (\<lambda>u w1. then_do (askQuestion w1)
             (\<lambda>choice w2.
                (let selected = variant_at (variants result) choice in
                 if truthy selected then (Return (Some selected), w2)
                 else (Return None, print MsgInvalidSelection w2))))
      else (Return (Some (synthetic_variant result)), w))"

text \<open>The identifier the stock is asked for (line 205).\<close>

definition selected_id :: "jsval \<Rightarrow> jsval" where
  "selected_id selected = js_or (get_prop selected ''erpNumber'') (get_prop selected ''articleId'')"

subsection \<open>The postal code (lines 186--199)\<close>

text \<open>\<^verbatim>\<open>/^\d{4}$/.test(filterPostcode)\<close>\<close>

definition valid_postcode :: "string \<Rightarrow> bool" where
  "valid_postcode s = (length s = 4 \<and> list_all is_digit s)"

text \<open>The \<^verbatim>\<open>while\<close> of lines 188--191, entered with the first answer.\<close>

function postcode_loop :: "string \<Rightarrow> world \<Rightarrow> string completion \<times> world" where
  "postcode_loop filterPostcode w =
     (if filterPostcode \<noteq> [] \<and> \<not> valid_postcode filterPostcode then
        (case askQuestion (print MsgInvalidPostcode w) of
           (Return a, w') \<Rightarrow> postcode_loop a w'
         | (Throw e, w') \<Rightarrow> (Throw e, w')
         | (Exit n, w') \<Rightarrow> (Exit n, w')
         | (Pending, w') \<Rightarrow> (Pending, w'))
      else (Return filterPostcode, w))"
  by pat_completeness auto
termination
  by (relation "measure (\<lambda>(p, w). length (answers w))")
     (auto simp: askQuestion_def print_def split: list.splits)

declare postcode_loop.simps [simp del]

text \<open>\<^verbatim>\<open>haystack.includes(needle)\<close> on strings.\<close>

fun includes_str :: "string \<Rightarrow> string \<Rightarrow> bool" where
  "includes_str [] needle = (needle = [])"
| "includes_str (c # cs) needle = (if prefix needle (c # cs) then True else includes_str cs needle)"

text \<open>
  \<^verbatim>\<open>store.postalCode.includes(filterPostcode)\<close>: a substring test on a string, a membership
  test on an array, and a \<^verbatim>\<open>TypeError\<close> on everything else, which has no \<^verbatim>\<open>includes\<close>.
\<close>

fun postal_includes :: "jsval \<Rightarrow> string \<Rightarrow> js_error + bool" where
  "postal_includes (JStr p) code = Inr (includes_str p code)"
| "postal_includes (JArr xs) code = Inr (JStr code \<in> set xs)"
| "postal_includes JUndefined code = Inl (TypeError ''Cannot read properties of undefined (reading includes)'')"
| "postal_includes JNull code = Inl (TypeError ''Cannot read properties of null (reading includes)'')"
| "postal_includes v code = Inl (TypeError ''store.postalCode.includes is not a function'')"

text \<open>The \<^verbatim>\<open>stores.filter(...)\<close> of line 194: the first store that throws ends it.\<close>

fun filterByPostalCode :: "store list \<Rightarrow> string \<Rightarrow> js_error + store list" where
  "filterByPostalCode [] code = Inr []"
| "filterByPostalCode (s # rest) code =
     (case postal_includes (postalCode s) code of
        Inl e \<Rightarrow> Inl e
      | Inr keep \<Rightarrow>
          (case filterByPostalCode rest code of
             Inl e \<Rightarrow> Inl e
           | Inr kept \<Rightarrow> Inr (if keep then s # kept else kept)))"

text \<open>
  Lines 193--199 on what \<^verbatim>\<open>loadCachedStores\<close> gave. \<open>Return None\<close>: the flow has printed
  ``no stores'' and returns; \<open>Return (Some s)\<close>: the flow goes on with \<^verbatim>\<open>stores\<close> being \<open>s\<close>.
\<close>

definition filter_step ::
  "store list option \<Rightarrow> string \<Rightarrow> world \<Rightarrow> store list option option completion \<times> world"
where
  "filter_step stores filterPostcode w =
     (if filterPostcode \<noteq> [] then
        (case stores of
           None \<Rightarrow> (Throw (TypeError ''Cannot read properties of null (reading filter)''), w)
         | Some cached \<Rightarrow>
             (case filterByPostalCode cached filterPostcode of
                Inl e \<Rightarrow> (Throw e, w)
              | Inr kept \<Rightarrow>
                  if length kept = 0 then (Return None, print (MsgNoStoresForPostcode filterPostcode) w)
                  else (Return (Some (Some kept)), w)))
      else (Return (Some stores), w))"

text \<open>Lines 201--204: the directory is fetched when \<^verbatim>\<open>stores\<close> is still \<^verbatim>\<open>null\<close>.\<close>

definition ensure_stores :: "env \<Rightarrow> store list option \<Rightarrow> world \<Rightarrow> store list completion \<times> world" where
  "ensure_stores env stores w =
     (case stores of
        None \<Rightarrow> fetchLidlStores env (print MsgNotCached w)
      | Some cached \<Rightarrow> (Return cached, w))"

text \<open>Lines 184--205, from \<^verbatim>\<open>loadCachedStores()\<close> on, with \<^verbatim>\<open>selected\<close> chosen.\<close>

definition stock_phase :: "env \<Rightarrow> jsval \<Rightarrow> world \<Rightarrow> unit completion \<times> world" where
  "stock_phase env selected w =
     (let stores = loadCachedStores w in
      then_do (askQuestion w)
        (\<lambda>answer w1. then_do (postcode_loop answer w1)
           (\<lambda>filterPostcode w2. then_do (filter_step stores filterPostcode w2)
              (\<lambda>filtered w3.
                 (case filtered of
                    None \<Rightarrow> (Return (), w3)
                  | Some stores' \<Rightarrow>
                      then_do (ensure_stores env stores' w3)
                        (\<lambda>stores'' w4. findInStockStores env (selected_id selected) stores'' w4))))))"

definition productSearchFlow :: "env \<Rightarrow> world \<Rightarrow> unit completion \<times> world" where
  "productSearchFlow env w =
     then_do (askQuestion w)
       (\<lambda>url w1. then_do (fetchProductVariants env url w1)
          (\<lambda>result w2.
             (case result of
                None \<Rightarrow> (Return (), print MsgFetchProductFailed w2)
              | Some r \<Rightarrow>
                  if truthy (fullTitle r) then
                    then_do (choose_variant r (print (MsgSearching (fullTitle r)) w2))
                      (\<lambda>selected w3.
                         (case selected of
                            None \<Rightarrow> (Return (), w3)
                          | Some v \<Rightarrow> stock_phase env v w3))
                  else (Return (), print MsgFetchProductFailed w2))))"

section \<open>The menu (lines 209--260)\<close>

definition listStores :: "world \<Rightarrow> world" where
  "listStores w =
     (case loadCachedStores w of
        None \<Rightarrow> print MsgNoCachedStores w
      | Some stores \<Rightarrow>
          if length stores = 0 then print MsgNoCachedStores w
          else print (MsgTable stores) (print (MsgTotalStores (length stores)) w))"

text \<open>The body of \<^verbatim>\<open>mainMenu\<close> up to its last line, the call of itself.\<close>

definition menu_turn :: "env \<Rightarrow> world \<Rightarrow> unit completion \<times> world" where
  "menu_turn env w =
     then_do (askQuestion (print MsgMenu w))
       (\<lambda>choice w1.
          if choice = ''1'' then productSearchFlow env w1
          else if choice = ''2'' then
            then_do (fetchLidlStores env w1) (\<lambda>stores w2. (Return (), listStores w2))
          else (Exit 0, print MsgBye w1))"

subsection \<open>The menu ends on finite input\<close>

text \<open>
  \<^verbatim>\<open>mainMenu\<close> calls itself as its last step. Every turn reads at least one answer, and
  nothing gives answers back, so on a finite list of answers the recursion ends:
  \<open>keeps w r\<close> says that the result \<open>r\<close> of a call started in \<open>w\<close> has no more answers left
  than \<open>w\<close> had.
\<close>

definition keeps :: "world \<Rightarrow> 'a completion \<times> world \<Rightarrow> bool" where
  "keeps w r = (length (answers (snd r)) \<le> length (answers w))"

lemma answers_print [simp]: "answers (print m w) = answers w"
  by (simp add: print_def)

lemma keeps_pair [simp]: "keeps w (r, w') \<longleftrightarrow> length (answers w') \<le> length (answers w)"
  by (simp add: keeps_def)

lemma answers_listStores [simp]: "answers (listStores w) = answers w"
  by (simp add: listStores_def split: option.splits)

lemma keeps_print [simp]: "keeps (print m w) r = keeps w r"
  by (simp add: keeps_def)

lemma keeps_trans: "keeps w (r, w1) \<Longrightarrow> keeps w1 r' \<Longrightarrow> keeps w r'"
  by (simp add: keeps_def)

lemma keeps_then_do:
  assumes "keeps w m" and "\<And>a w1. m = (Return a, w1) \<Longrightarrow> keeps w1 (f a w1)"
  shows "keeps w (then_do m f)"
proof (cases m)
  case (Pair c w1)
  with assms show ?thesis
    by (cases c) (auto simp: keeps_def intro: le_trans)
qed

lemma keeps_askQuestion: "keeps w (askQuestion w)"
  by (simp add: keeps_def askQuestion_def split: list.splits)

lemma askQuestion_consumes:
  "askQuestion w = (Return a, w') \<Longrightarrow> length (answers w') < length (answers w)"
  by (auto simp: askQuestion_def split: list.splits)

lemma keeps_fetchLidlStores: "keeps w (fetchLidlStores env w)"
  by (simp add: keeps_def fetchLidlStores_def split: fetch_result.splits option.splits sum.splits)

lemma keeps_fetchProductVariants: "keeps w (fetchProductVariants env url w)"
  by (simp add: keeps_def fetchProductVariants_def Let_def split: option.splits sum.splits)

lemma keeps_print_variants: "keeps w (print_variants i vs w)"
  by (induction i vs w rule: print_variants.induct) simp_all

lemma keeps_choose_variant: "keeps w (choose_variant r w)"
  unfolding choose_variant_def
  by (auto intro!: keeps_then_do keeps_askQuestion simp: Let_def
      intro: keeps_print_variants[of "print m w" for m, simplified])

lemma keeps_postcode_loop: "keeps w (postcode_loop p w)"
proof (induction p w rule: postcode_loop.induct)
  case (1 p w)
  show ?case
  proof (cases "p \<noteq> [] \<and> \<not> valid_postcode p")
    case False
    then show ?thesis by (subst postcode_loop.simps) auto
  next
    case True
    obtain c w' where ask: "askQuestion (print MsgInvalidPostcode w) = (c, w')"
      by (cases "askQuestion (print MsgInvalidPostcode w)")
    have k: "keeps w (c, w')"
      using keeps_askQuestion[of "print MsgInvalidPostcode w"] ask by simp
    show ?thesis
    proof (cases c)
      case (Return a)
      with 1 True ask have "keeps w' (postcode_loop a w')" by simp
      with k have "keeps w (postcode_loop a w')" by (rule keeps_trans)
      with True ask Return show ?thesis by (subst postcode_loop.simps) simp
    qed (use True ask k in \<open>subst postcode_loop.simps, simp\<close>)+
  qed
qed

lemma keeps_filter_step: "keeps w (filter_step stores p w)"
  by (simp add: filter_step_def split: option.splits sum.splits)

lemma keeps_ensure_stores: "keeps w (ensure_stores env stores w)"
  using keeps_fetchLidlStores[of "print MsgNotCached w" env]
  by (simp add: ensure_stores_def split: option.splits)

lemma answers_stock_step: "stock_step stores x st = Inr st' \<Longrightarrow> answers (snd st') = answers (snd st)"
  by (auto simp: stock_step_def Let_def split: sum.splits option.splits if_splits)

lemma keeps_stock_loop: "keeps w (r, snd st) \<Longrightarrow> keeps w (stock_loop stores xs st)"
proof (induction xs arbitrary: st)
  case Nil
  then show ?case by (simp add: keeps_def)
next
  case (Cons x xs)
  show ?case
  proof (cases "stock_step stores x st")
    case (Inl e)
    with Cons.prems show ?thesis by (simp add: keeps_def)
  next
    case (Inr st')
    with Cons.prems have "keeps w (r, snd st')"
      by (simp add: keeps_def answers_stock_step)
    with Cons.IH Inr show ?thesis by simp
  qed
qed

lemma keeps_findInStockStores: "keeps w (findInStockStores env pid stores w)"
proof -
  have *: "keeps w (stock_loop stores xs ([], print MsgCheckingStock w))" for xs
    by (rule keeps_stock_loop[where r = "Return ()"]) simp
  show ?thesis
    unfolding findInStockStores_def Let_def
    by (auto split: sum.splits jsval.splits list.splits simp del: stock_loop.simps
        intro!: keeps_then_do[OF *])
qed

lemma keeps_stock_phase: "keeps w (stock_phase env v w)"
  unfolding stock_phase_def Let_def
  by (auto intro!: keeps_then_do keeps_askQuestion keeps_postcode_loop keeps_filter_step
      keeps_ensure_stores keeps_findInStockStores split: option.splits)

lemma keeps_productSearchFlow: "keeps w (productSearchFlow env w)"
  unfolding productSearchFlow_def
  by (auto intro!: keeps_then_do keeps_askQuestion keeps_fetchProductVariants keeps_stock_phase
      keeps_choose_variant[of "print m w" for m w, simplified] split: option.splits)

lemma menu_turn_consumes:
  assumes "menu_turn env w = (Return u, w')"
  shows "length (answers w') < length (answers w)"
proof -
  obtain c w1 where ask: "askQuestion (print MsgMenu w) = (c, w1)"
    by (cases "askQuestion (print MsgMenu w)")
  show ?thesis
  proof (cases c)
    case (Return choice)
    with ask have lt: "length (answers w1) < length (answers w)"
      using askQuestion_consumes[of "print MsgMenu w" choice w1] by simp
    have "keeps w1 (menu_turn env w)"
      using ask Return keeps_productSearchFlow[of w1 env] keeps_fetchLidlStores[of w1 env]
      by (auto simp: menu_turn_def intro!: keeps_then_do)
    with assms lt show ?thesis by (simp add: keeps_def)
  qed (use assms ask in \<open>simp_all add: menu_turn_def\<close>)
qed

text \<open>
  \<^verbatim>\<open>mainMenu\<close> (lines 240--258). The call on line 257 is not awaited and nothing handles
  a rejection of \<^verbatim>\<open>mainMenu()\<close> on line 260 either: a \<open>Throw\<close> of any turn is an unhandled
  rejection, and no further turn runs.
\<close>

function mainMenu :: "env \<Rightarrow> world \<Rightarrow> unit completion \<times> world" where
  "mainMenu env w =
     (case menu_turn env w of
        (Return u, w') \<Rightarrow> mainMenu env w'
      | (Throw e, w') \<Rightarrow> (Throw e, w')
      | (Exit n, w') \<Rightarrow> (Exit n, w')
      | (Pending, w') \<Rightarrow> (Pending, w'))"
  by pat_completeness auto
termination
  by (relation "measure (\<lambda>(env, w). length (answers w))") (auto dest: menu_turn_consumes[OF sym])

text \<open>The program: lines 13--16, then the first \<^verbatim>\<open>mainMenu()\<close> of line 260.\<close>

definition program :: "env \<Rightarrow> world \<Rightarrow> unit completion \<times> world" where
  "program env w =
     (if unset (LIDL_STOCK_API env) then (Exit 1, print MsgMissingStockApi w)
      else mainMenu env w)"

declare mainMenu.simps [simp del]

section \<open>Example data\<close>

definition store_a :: store where
  "store_a =
     \<lparr>store_id = JStr ''A'', address = ''Trg 1, 1000 Ljubljana'', postalCode = JStr ''1000'',
      latitude = JNum 46, longitude = JNum 14, services = [JStr ''Parking'']\<rparr>"

definition obs :: "jsval \<Rightarrow> string \<Rightarrow> jsval" where
  "obs storeId status = JObj [(''storeId'', storeId), (''storeAvailabilityIndicator'', JStr status)]"

definition world0 :: world where
  "world0 = \<lparr>answers = [], cache_file = None, open_browsers = 0, console = []\<rparr>"

section \<open>Classification of the stock status\<close>

lemma strict_eq_imp_eq: "strict_eq a b \<Longrightarrow> a = b"
  by (cases a; cases b) simp_all

text \<open>
  C4. For an observation whose store is in the list, the loop body is a function of the
  status alone: \<^verbatim>\<open>AVAILABLE\<close> reports the store in stock and counts it, \<^verbatim>\<open>LOW_STOCK\<close>
  reports low stock and counts it too, \<^verbatim>\<open>UNKNOWN\<close> reports an unknown status and does
  not count it, and every other status (any other string, and any value that is not a
  string) reports the store as not in stock and does not count it. The list of counted
  stores is the one whose length \<open>findInStockStores\<close> prints at the end.
\<close>

theorem stock_classification:
  assumes "find_store stores stockInfo = Inr (Some store)"
  shows "(get_prop stockInfo ''storeAvailabilityIndicator'' = JStr ''AVAILABLE'' \<longrightarrow>
            stock_step stores stockInfo (inStock, w)
              = Inr (inStock @ [store], print (MsgInStock (address store)) w))
       \<and> (get_prop stockInfo ''storeAvailabilityIndicator'' = JStr ''LOW_STOCK'' \<longrightarrow>
            stock_step stores stockInfo (inStock, w)
              = Inr (inStock @ [store], print (MsgLowStock (address store)) w))
       \<and> (get_prop stockInfo ''storeAvailabilityIndicator'' = JStr ''UNKNOWN'' \<longrightarrow>
            stock_step stores stockInfo (inStock, w)
              = Inr (inStock, print (MsgUnknownStock (address store)) w))
       \<and> (get_prop stockInfo ''storeAvailabilityIndicator''
              \<notin> {JStr ''AVAILABLE'', JStr ''LOW_STOCK'', JStr ''UNKNOWN''} \<longrightarrow>
            stock_step stores stockInfo (inStock, w)
              = Inr (inStock, print (MsgNotInStock (address store)) w))"
  using assms
  by (auto simp: stock_step_def Let_def dest: strict_eq_imp_eq)

theorem stock_classification_witness:
  "stock_step [store_a] (obs (JStr ''A'') ''FOOBAR'') ([], world0)
     = Inr ([], print (MsgNotInStock ''Trg 1, 1000 Ljubljana'') world0)
   \<and> stock_step [store_a] (obs (JStr ''A'') ''LOW_STOCK'') ([], world0)
     = Inr ([store_a], print (MsgLowStock ''Trg 1, 1000 Ljubljana'') world0)"
proof -
  have f: "find_store [store_a] (obs (JStr ''A'') st) = Inr (Some store_a)" for st
    by (simp add: obs_def store_a_def member_def)
  show ?thesis
    using stock_classification [OF f, of "''FOOBAR''" "[]" world0]
      stock_classification [OF f, of "''LOW_STOCK''" "[]" world0]
    by (simp add: obs_def store_a_def)
qed

section \<open>Matching an observation to a store\<close>

lemma strict_eq_same: "strict_eq a b \<Longrightarrow> to_string a = to_string b \<and> js_typeof a = js_typeof b"
  by (drule strict_eq_imp_eq) simp

lemma find_store_find:
  "\<not> nullish stockInfo \<Longrightarrow>
   find_store stores stockInfo
     = Inr (find (\<lambda>s. strict_eq (store_id s) (get_prop stockInfo ''storeId'')) stores)"
  by (induction stores) (simp_all add: member_def)

lemma find_none_by_type:
  assumes "\<forall>s\<in>set stores. to_string (store_id s) = to_string v \<longrightarrow> js_typeof (store_id s) \<noteq> js_typeof v"
  shows "find (\<lambda>s. strict_eq (store_id s) v) stores = None"
  using assms by (auto simp: find_None_iff dest: strict_eq_same)

definition store_123 :: store where
  "store_123 =
     \<lparr>store_id = JNum 123, address = ''Cesta 2, 2000 Maribor'', postalCode = JStr ''2000'',
      latitude = JNum 46, longitude = JNum 15, services = []\<rparr>"

text \<open>
  C10. The lookup of line 107 compares identifiers with \<^verbatim>\<open>===\<close>. When every store whose
  identifier reads the same as the observation's \<^verbatim>\<open>storeId\<close> (the same text, as \<^verbatim>\<open>"123"\<close>
  and \<^verbatim>\<open>123\<close>) has it with another runtime type, no store is found, the loop body leaves
  the list of stores in stock and the console as they were, and a response made of this
  one observation counts no store.
\<close>

theorem strict_store_lookup:
  assumes "\<not> nullish stockInfo"
    and "\<forall>s\<in>set stores. to_string (store_id s) = to_string (get_prop stockInfo ''storeId'')
            \<longrightarrow> js_typeof (store_id s) \<noteq> js_typeof (get_prop stockInfo ''storeId'')"
  shows "find_store stores stockInfo = Inr None
       \<and> stock_step stores stockInfo (inStock, w) = Inr (inStock, w)
       \<and> stock_loop stores [stockInfo] ([], w) = (Return [], w)"
proof -
  have "find (\<lambda>s. strict_eq (store_id s) (get_prop stockInfo ''storeId'')) stores = None"
    using assms(2) by (rule find_none_by_type)
  with assms(1) have none: "find_store stores stockInfo = Inr None"
    by (simp add: find_store_find)
  then have step: "stock_step stores stockInfo st = Inr st" for st
    by (simp add: stock_step_def)
  from none step show ?thesis by simp
qed

theorem strict_store_lookup_witness:
  "to_string (store_id store_123) = to_string (JStr ''123'')
   \<and> find_store [store_123, store_a] (obs (JStr ''123'') ''AVAILABLE'') = Inr None
   \<and> stock_step [store_123, store_a] (obs (JStr ''123'') ''AVAILABLE'') ([], world0) = Inr ([], world0)
   \<and> stock_loop [store_123, store_a] [obs (JStr ''123'') ''AVAILABLE''] ([], world0) = (Return [], world0)"
proof -
  have n: "\<not> nullish (obs (JStr ''123'') ''AVAILABLE'')"
    by (simp add: obs_def)
  have t: "to_string (store_id store_123) = to_string (JStr ''123'')"
    by (simp add: store_123_def show_int_def show_nat.simps)
  have h: "\<forall>s\<in>set [store_123, store_a].
             to_string (store_id s) = to_string (get_prop (obs (JStr ''123'') ''AVAILABLE'') ''storeId'')
             \<longrightarrow> js_typeof (store_id s) \<noteq> js_typeof (get_prop (obs (JStr ''123'') ''AVAILABLE'') ''storeId'')"
    by (simp add: obs_def store_123_def store_a_def)
  show ?thesis
    using strict_store_lookup [OF n h, of "[]" world0] t by simp
qed

section \<open>The postal-code filter\<close>

lemma includes_str_sublist: "includes_str p code = sublist code p"
  by (induction p) (auto simp: sublist_Cons_right)

lemma filterByPostalCode_strings:
  assumes "\<forall>s\<in>set stores. \<exists>p. postalCode s = JStr p"
  shows "filterByPostalCode stores code
           = Inr (filter (\<lambda>s. sublist code (to_string (postalCode s))) stores)"
  using assms by (induction stores) (auto simp: includes_str_sublist)

definition pc_store :: "string \<Rightarrow> store" where
  "pc_store p =
     \<lparr>store_id = JStr p, address = p, postalCode = JStr p,
      latitude = JNull, longitude = JNull, services = []\<rparr>"

text \<open>
  C5. On a list of stores whose postal codes are strings, the filter of line 194 throws
  nothing and returns, for every string \<open>code\<close>, the stores whose postal code has \<open>code\<close>
  as a contiguous substring: they are a subsequence of the input (same order, same
  multiplicity), and a store is in the result exactly when it is in the input and its
  postal code contains \<open>code\<close>.
\<close>

theorem postal_filter:
  assumes "\<forall>s\<in>set stores. \<exists>p. postalCode s = JStr p"
  shows "\<exists>kept. filterByPostalCode stores code = Inr kept
           \<and> kept = filter (\<lambda>s. sublist code (to_string (postalCode s))) stores
           \<and> subseq kept stores
           \<and> (\<forall>s. s \<in> set kept \<longleftrightarrow> s \<in> set stores \<and> sublist code (to_string (postalCode s)))"
  using filterByPostalCode_strings [OF assms] by auto

theorem postal_filter_witness:
  "filterByPostalCode [pc_store ''1010'', pc_store ''1020'', pc_store ''2010''] ''10''
     = Inr [pc_store ''1010'', pc_store ''1020'', pc_store ''2010'']
   \<and> filterByPostalCode [pc_store ''1010'', pc_store ''1020'', pc_store ''2010''] ''01''
     = Inr [pc_store ''1010'', pc_store ''2010'']"
proof -
  have h: "\<forall>s\<in>set [pc_store ''1010'', pc_store ''1020'', pc_store ''2010'']. \<exists>p. postalCode s = JStr p"
    by (simp add: pc_store_def)
  have "\<exists>kept. filterByPostalCode [pc_store ''1010'', pc_store ''1020'', pc_store ''2010''] c = Inr kept
           \<and> kept = filter (\<lambda>s. sublist c (to_string (postalCode s)))
                      [pc_store ''1010'', pc_store ''1020'', pc_store ''2010'']" for c
    using postal_filter [OF h, of c] by blast
  then show ?thesis
    by (simp add: pc_store_def flip: includes_str_sublist)
qed

section \<open>A product without variants\<close>

definition product_page :: jsval where
  "product_page =
     JObj [(''data'', JObj [(''&erp100'', JObj [(''keyfacts'', JObj [(''fullTitle'', JStr ''Drill'')])])])]"

definition product_url :: string where
  "product_url = ''https://www.lidl.si/p/drill/p100''"

text \<open>
  An environment in which every variable is set, the browser works and shows the page
  of a product without variants, and every request is answered with a status that is
  not a success.
\<close>

definition env0 :: env where
  "env0 =
     \<lparr>MAPS_HOST = Some ''https://maps.example/stores'',
      MAPS_API_KEY = Some ''key'',
      LIDL_STOCK_API = Some ''https://stock.example/'',
      fetch = (\<lambda>url. Response False None),
      launch_error = None,
      newPage_error = None,
      goto_error = (\<lambda>url. None),
      nuxt = (\<lambda>url. product_page)\<rparr>"

lemma match_product_id_nonempty: "match_product_id url = Some pid \<Longrightarrow> pid \<noteq> []"
  by (induction url) (auto split: if_splits)

lemma fetchProductVariants_productId:
  "fetchProductVariants env url w = (Return (Some r), w') \<Longrightarrow> match_product_id url = Some (productId r)"
  by (auto simp: fetchProductVariants_def Let_def split: option.splits sum.splits)

text \<open>
  C6. When the URL the user typed resolves to a product with a title and an empty list
  of variants, the flow asks for no choice: \<^verbatim>\<open>selected\<close> is the one made-up variant, the
  identifier it hands to the stock query is the product identifier matched in the URL,
  and the flow goes on with the store cache and the stock query for that variant.
\<close>

theorem synthetic_variant_fallback:
  assumes "askQuestion w = (Return url, w1)"
    and "fetchProductVariants env url w1 = (Return (Some r), w2)"
    and "truthy (fullTitle r)"
    and "variants r = []"
  shows "match_product_id url = Some (productId r)
       \<and> choose_variant r (print (MsgSearching (fullTitle r)) w2)
           = (Return (Some (synthetic_variant r)), print (MsgSearching (fullTitle r)) w2)
       \<and> selected_id (synthetic_variant r) = JStr (productId r)
       \<and> productSearchFlow env w
           = stock_phase env (synthetic_variant r) (print (MsgSearching (fullTitle r)) w2)"
proof -
  have pid: "match_product_id url = Some (productId r)"
    using assms(2) by (rule fetchProductVariants_productId)
  then have "productId r \<noteq> []" by (rule match_product_id_nonempty)
  then have sel: "selected_id (synthetic_variant r) = JStr (productId r)"
    by (simp add: selected_id_def synthetic_variant_def js_or_def)
  have ch: "choose_variant r w' = (Return (Some (synthetic_variant r)), w')" for w'
    using assms(4) by (simp add: choose_variant_def)
  have "productSearchFlow env w
          = stock_phase env (synthetic_variant r) (print (MsgSearching (fullTitle r)) w2)"
    using assms(1-3) ch by (simp add: productSearchFlow_def)
  with pid sel ch show ?thesis by simp
qed

definition drill :: product_ref where
  "drill = \<lparr>productId = ''100'', variants = [], fullTitle = JStr ''Drill''\<rparr>"

lemma ask_url: "askQuestion (world0\<lparr>answers := [product_url, ''1000'']\<rparr>)
    = (Return product_url, world0\<lparr>answers := [''1000'']\<rparr>)"
  by (simp add: askQuestion_def world0_def)

lemma fetch_drill: "fetchProductVariants env0 product_url (world0\<lparr>answers := [''1000'']\<rparr>)
    = (Return (Some drill), world0\<lparr>answers := [''1000'']\<rparr>)"
  by code_simp

theorem synthetic_variant_fallback_witness:
  "match_product_id product_url = Some ''100''
   \<and> selected_id (synthetic_variant drill) = JStr ''100''
   \<and> productSearchFlow env0 (world0\<lparr>answers := [product_url, ''1000'']\<rparr>)
       = stock_phase env0 (synthetic_variant drill)
           (print (MsgSearching (JStr ''Drill'')) (world0\<lparr>answers := [''1000'']\<rparr>))"
proof -
  have t: "truthy (fullTitle drill)" and v: "variants drill = []"
    by (simp_all add: drill_def)
  show ?thesis
    using synthetic_variant_fallback [OF ask_url fetch_drill t v] by (simp add: drill_def)
qed

section \<open>A failed refresh and the cache file\<close>

definition cached :: world where
  "cached = world0\<lparr>cache_file := Some [store_a]\<rparr>"

text \<open>
  C9. A call of \<open>fetchLidlStores\<close> that does not return (it exits the process because a
  variable is missing, the request fails or the status is not a success, or it throws
  because the body is not the expected JSON) leaves the cache file as it was. The file
  changes only in a call that returns: then the request succeeded, the body was parsed
  and every entry was made into a store, and the file holds these stores.
\<close>

theorem refresh_failure_keeps_cache:
  assumes "fetchLidlStores env w = (c, w')"
  shows "((\<forall>stores. c \<noteq> Return stores) \<longrightarrow> cache_file w' = cache_file w)
       \<and> (\<forall>stores. c = Return stores \<longrightarrow>
            (\<exists>data. fetch env (maps_url env) = Response True (Some data)
                   \<and> stores_of_body data = Inr stores)
            \<and> w' = w\<lparr>cache_file := Some (map json_store stores)\<rparr>)"
  using assms
  by (auto simp: fetchLidlStores_def print_def split: if_splits fetch_result.splits option.splits sum.splits)

theorem refresh_failure_keeps_cache_witness:
  "fetchLidlStores (env0\<lparr>MAPS_API_KEY := None\<rparr>) cached = (Exit 1, print MsgMissingMapsEnv cached)
   \<and> fetchLidlStores (env0\<lparr>fetch := (\<lambda>url. Rejected (HostError ''fetch failed''))\<rparr>) cached
       = (Exit 1, print MsgFetchStoresFailed cached)
   \<and> fetchLidlStores env0 cached = (Exit 1, print MsgFetchStoresFailed cached)
   \<and> cache_file (print MsgMissingMapsEnv cached) = Some [store_a]
   \<and> cache_file (print MsgFetchStoresFailed cached) = Some [store_a]"
proof -
  have a: "fetchLidlStores (env0\<lparr>MAPS_API_KEY := None\<rparr>) cached = (Exit 1, print MsgMissingMapsEnv cached)"
    by (simp add: fetchLidlStores_def env0_def unset_def)
  have b: "fetchLidlStores (env0\<lparr>fetch := (\<lambda>url. Rejected (HostError ''fetch failed''))\<rparr>) cached
       = (Exit 1, print MsgFetchStoresFailed cached)"
    by (simp add: fetchLidlStores_def env0_def unset_def)
  have c: "fetchLidlStores env0 cached = (Exit 1, print MsgFetchStoresFailed cached)"
    by (simp add: fetchLidlStores_def env0_def unset_def)
  have s: "cache_file cached = Some [store_a]"
    by (simp add: cached_def world0_def)
  show ?thesis
    using refresh_failure_keeps_cache [OF a] refresh_failure_keeps_cache [OF b]
      refresh_failure_keeps_cache [OF c] a b c s
    by simp
qed

section \<open>The cache is loaded, the filter applied, and only then the directory fetched\<close>

lemma filter_step_absent:
  "code \<noteq> [] \<Longrightarrow> filter_step None code w
     = (Throw (TypeError ''Cannot read properties of null (reading filter)''), w)"
  by (simp add: filter_step_def)

text \<open>
  From \<^verbatim>\<open>loadCachedStores()\<close> on: whenever there is no cache file and the first answer is
  four digits, the flow throws at the filter, whatever the environment.
\<close>

lemma postcode_loop_valid: "valid_postcode code \<Longrightarrow> postcode_loop code w = (Return code, w)"
  by (subst postcode_loop.simps) simp

lemma stock_phase_absent_cache:
  assumes "loadCachedStores w = None" and "askQuestion w = (Return code, w1)" and "valid_postcode code"
  shows "stock_phase env selected w
           = (Throw (TypeError ''Cannot read properties of null (reading filter)''), w1)"
proof -
  from assms(3) have "code \<noteq> []" by (auto simp: valid_postcode_def)
  with assms show ?thesis
    by (simp add: stock_phase_def postcode_loop_valid filter_step_absent)
qed

text \<open>
  C1. With no cache file and the postal code \<^verbatim>\<open>1000\<close>, \<^verbatim>\<open>stores\<close> is still \<^verbatim>\<open>null\<close> when
  line 194 calls \<^verbatim>\<open>stores.filter\<close>: the flow throws a \<^verbatim>\<open>TypeError\<close>, nothing is fetched, and
  the run of the program ends there, the next answer unread. The refresh of lines
  201--204 is reached only when no postal code is given (third part: it is announced and
  attempted).
\<close>

theorem absent_cache_postcode_throws:
  "productSearchFlow env0 (world0\<lparr>answers := [product_url, ''1000'']\<rparr>)
     = (Throw (TypeError ''Cannot read properties of null (reading filter)''),
        world0\<lparr>console := [MsgSearching (JStr ''Drill'')]\<rparr>)
   \<and> program env0 (world0\<lparr>answers := [''1'', product_url, ''1000'', ''3'']\<rparr>)
     = (Throw (TypeError ''Cannot read properties of null (reading filter)''),
        world0\<lparr>answers := [''3''], console := [MsgMenu, MsgSearching (JStr ''Drill'')]\<rparr>)
   \<and> productSearchFlow env0 (world0\<lparr>answers := [product_url, []]\<rparr>)
     = (Exit 1, world0\<lparr>console := [MsgSearching (JStr ''Drill''), MsgNotCached, MsgFetchStoresFailed]\<rparr>)"
  by code_simp

section \<open>The browser on the failure paths\<close>

text \<open>
  The browsers open after a call: as many as before when the call returns, and one more
  when it throws after a successful launch.
\<close>

lemma fetchProductVariants_browsers:
  assumes "fetchProductVariants env url w = (c, w')"
  shows "case c of
           Return r \<Rightarrow> open_browsers w' = open_browsers w
         | Throw e \<Rightarrow> open_browsers w' = (if launch_error env = None then Suc (open_browsers w) else open_browsers w)
         | Exit n \<Rightarrow> False
         | Pending \<Rightarrow> False"
  using assms
  by (auto simp: fetchProductVariants_def Let_def split: option.splits sum.splits)

text \<open>
  C3. \<^verbatim>\<open>browser.close()\<close> (line 150) is reached only when nothing before it throws. When
  the navigation fails, or the page has no \<^verbatim>\<open>window.__NUXT__\<close> and the first page script
  throws, the call ends with the browser it launched still open; when all goes well no
  browser is left.
\<close>

theorem browser_left_open:
  "fetchProductVariants (env0\<lparr>goto_error := (\<lambda>url. Some (HostError ''Navigation timeout''))\<rparr>)
       product_url world0
     = (Throw (HostError ''Navigation timeout''), world0\<lparr>open_browsers := 1\<rparr>)
   \<and> fetchProductVariants (env0\<lparr>nuxt := (\<lambda>url. JUndefined)\<rparr>) product_url world0
     = (Throw (TypeError ''Cannot read properties of null or undefined (reading data)''),
        world0\<lparr>open_browsers := 1\<rparr>)
   \<and> fetchProductVariants env0 product_url world0
     = (Return (Some \<lparr>productId = ''100'', variants = [], fullTitle = JStr ''Drill''\<rparr>), world0)"
  by code_simp

section \<open>Amenity codes that name an inherited property\<close>

lemma services_step_label:
  assumes "truthy (get_prop location (''INFOICON'' @ show_nat i))"
    and "map_of icon_cypher (to_string (get_prop location (''INFOICON'' @ show_nat i))) = Some label"
  shows "services_step location i acc = acc @ [JStr label]"
proof -
  from assms(2) have "(to_string (get_prop location (''INFOICON'' @ show_nat i)), label) \<in> set icon_cypher"
    by (rule map_of_SomeD)
  then have "label \<noteq> []"
    by (auto simp: icon_cypher_def)
  with assms show ?thesis
    by (simp add: services_step_def icon_cypher_get_def)
qed

lemma services_step_raw:
  assumes "truthy (get_prop location (''INFOICON'' @ show_nat i))"
    and "map_of icon_cypher (to_string (get_prop location (''INFOICON'' @ show_nat i))) = None"
    and "map_of object_prototype (to_string (get_prop location (''INFOICON'' @ show_nat i))) = None"
  shows "services_step location i acc = acc @ [get_prop location (''INFOICON'' @ show_nat i)]"
  using assms by (simp add: services_step_def icon_cypher_get_def)

text \<open>
  C8. A code that is no key of the table but names a property that \<^verbatim>\<open>icon_cypher\<close>
  inherits is not passed through: for \<^verbatim>\<open>constructor\<close> the lookup \<^verbatim>\<open>icon_cypher[code]\<close>
  gives the function \<^verbatim>\<open>Object\<close>, which is truthy and is pushed in place of the code. The
  codes \<^verbatim>\<open>parking\<close> (in the table) and \<^verbatim>\<open>sauna\<close> (in neither) come out as the claim says.
\<close>

theorem inherited_code_not_verbatim:
  "parseServices (JObj [(''INFOICON1'', JStr ''constructor''), (''INFOICON2'', JStr ''parking''),
                        (''INFOICON3'', JStr ''sauna'')])
     = [JFunction ''Object'', JStr ''Parking'', JStr ''sauna'']"
  by code_simp

section \<open>Refreshing and loading again\<close>

text \<open>
  What the round trip through the file preserves. A value that \<^verbatim>\<open>JSON.parse\<close> can give
  (no \<^verbatim>\<open>undefined\<close> and no function inside) is written and read back unchanged, and so
  is a store made from such a raw entry, unless a function has got into its \<^verbatim>\<open>services\<close>:
  then loading after a refresh gives the list the refresh returned.
\<close>

fun is_json :: "jsval \<Rightarrow> bool" where
  "is_json JUndefined = False"
| "is_json (JFunction f) = False"
| "is_json JNull = True"
| "is_json (JBool b) = True"
| "is_json (JNum n) = True"
| "is_json (JStr s) = True"
| "is_json (JArr xs) = list_all is_json xs"
| "is_json (JObj kvs) = list_all (\<lambda>kv. is_json (snd kv)) kvs"

lemma is_json_serialisable: "is_json v \<Longrightarrow> \<not> unserialisable v"
  by (cases v) simp_all

lemma json_clone_id: "is_json v \<Longrightarrow> json_clone v = v"
proof (induction v)
  case (JArr xs)
  then show ?case
    by (auto simp: list_all_iff intro: map_idI)
next
  case (JObj kvs)
  have keep: "filter (\<lambda>kv. \<not> unserialisable (snd kv)) kvs = kvs"
    using JObj.prems by (auto simp: list_all_iff is_json_serialisable)
  have "map (\<lambda>kv. (fst kv, json_clone (snd kv))) kvs = kvs"
  proof (rule map_idI)
    fix kv assume mem: "kv \<in> set kvs"
    obtain k v where kv: "kv = (k, v)" by (cases kv)
    from mem kv JObj.prems have "is_json v"
      by (auto simp: list_all_iff)
    with mem kv have "json_clone v = v"
      using JObj.IH [of "(k, v)" v] by simp
    with kv show "(fst kv, json_clone (snd kv)) = kv" by simp
  qed
  with keep show ?case by simp
qed simp_all

lemma get_prop_json: "is_json v \<Longrightarrow> get_prop v k = JUndefined \<or> is_json (get_prop v k)"
  by (cases v) (auto simp: list_all_iff split: option.splits dest!: map_of_SomeD)

lemma json_field_id: "v = JUndefined \<or> is_json v \<Longrightarrow> json_field v = v"
  by (auto simp: json_field_def json_clone_id is_json_serialisable)

lemma icon_cypher_get_cases:
  "icon_cypher_get code = JUndefined \<or> is_json (icon_cypher_get code)
     \<or> js_typeof (icon_cypher_get code) = TFunction"
  by (auto simp: icon_cypher_get_def object_prototype_def split: option.splits if_splits)

lemma services_step_json:
  assumes "is_json location" and "\<forall>x\<in>set acc. is_json x \<or> js_typeof x = TFunction"
  shows "\<forall>x\<in>set (services_step location i acc). is_json x \<or> js_typeof x = TFunction"
proof -
  let ?code = "get_prop location (''INFOICON'' @ show_nat i)"
  have c: "truthy ?code \<Longrightarrow> is_json ?code"
    using get_prop_json [OF assms(1), of "''INFOICON'' @ show_nat i"] by auto
  have n: "truthy (icon_cypher_get ?code) \<Longrightarrow>
             is_json (icon_cypher_get ?code) \<or> js_typeof (icon_cypher_get ?code) = TFunction"
    using icon_cypher_get_cases [of ?code] by auto
  show ?thesis
    using assms(2) c n by (auto simp: services_step_def Let_def)
qed

lemma fold_services_json:
  assumes "is_json location" and "\<forall>x\<in>set acc. is_json x \<or> js_typeof x = TFunction"
  shows "\<forall>x\<in>set (fold (services_step location) is acc). is_json x \<or> js_typeof x = TFunction"
  using assms(2)
proof (induction "is" arbitrary: acc)
  case Nil
  then show ?case by simp
next
  case (Cons i "is")
  have "\<forall>x\<in>set (services_step location i acc). is_json x \<or> js_typeof x = TFunction"
    by (rule services_step_json [OF assms(1) Cons.prems])
  from Cons.IH [OF this] show ?case by simp
qed

lemma parseServices_json:
  "is_json location \<Longrightarrow> \<forall>x\<in>set (parseServices location). is_json x \<or> js_typeof x = TFunction"
  unfolding parseServices_def by (rule fold_services_json) simp_all

lemma json_store_make_store:
  assumes "is_json s" and "\<forall>x\<in>set (services (make_store s)). js_typeof x \<noteq> TFunction"
  shows "json_store (make_store s) = make_store s"
proof -
  have "\<forall>x\<in>set (parseServices s). is_json x"
    using parseServices_json [OF assms(1)] assms(2) by (auto simp: make_store_def)
  then have "map json_clone (parseServices s) = parseServices s"
    by (auto intro: map_idI simp: json_clone_id)
  then show ?thesis
    using get_prop_json [OF assms(1)]
    by (simp add: json_store_def make_store_def json_field_id)
qed

lemma map_stores_round_trip:
  assumes "list_all is_json raw" and "map_stores raw = Inr stores"
    and "\<forall>s\<in>set stores. \<forall>x\<in>set (services s). js_typeof x \<noteq> TFunction"
  shows "map json_store stores = stores"
  using assms
proof (induction raw arbitrary: stores)
  case Nil
  then show ?case by simp
next
  case (Cons r raw)
  from Cons.prems(2) obtain rest where rest: "map_stores raw = Inr rest"
    and st: "stores = make_store r # rest"
    by (auto split: if_splits sum.splits)
  from Cons.prems st have "json_store (make_store r) = make_store r"
    by (intro json_store_make_store) simp_all
  moreover from Cons.IH [OF _ rest] Cons.prems st have "map json_store rest = rest"
    by simp
  ultimately show ?case using st by simp
qed

lemma stores_of_body_round_trip:
  assumes "is_json data" and "stores_of_body data = Inr stores"
    and "\<forall>s\<in>set stores. \<forall>x\<in>set (services s). js_typeof x \<noteq> TFunction"
  shows "map json_store stores = stores"
proof -
  from assms(2) obtain d raw where d: "member data ''d'' = Inr d"
    and r: "member d ''results'' = Inr (JArr raw)" and m: "map_stores raw = Inr stores"
    by (auto simp: stores_of_body_def split: sum.splits jsval.splits)
  from d assms(1) have "d = JUndefined \<or> is_json d"
    using get_prop_json [of data "''d''"] by (auto simp: member_def split: if_splits)
  with r have "is_json d" by (auto simp: member_def)
  with r have "is_json (JArr raw)"
    using get_prop_json [of d "''results''"] by (auto simp: member_def split: if_splits)
  then have "list_all is_json raw" by simp
  from this m assms(3) show ?thesis by (rule map_stores_round_trip)
qed

lemma refresh_then_load:
  assumes "fetch env (maps_url env) = Response True (Some data)" and "is_json data"
    and "fetchLidlStores env w = (Return stores, w')"
    and "\<forall>s\<in>set stores. \<forall>x\<in>set (services s). js_typeof x \<noteq> TFunction"
  shows "loadCachedStores w' = Some stores"
proof -
  from assms(1,3) have b: "stores_of_body data = Inr stores"
    and w': "w' = w\<lparr>cache_file := Some (map json_store stores)\<rparr>"
    by (auto simp: fetchLidlStores_def split: if_splits sum.splits)
  from assms(2) b assms(4) have "map json_store stores = stores"
    by (rule stores_of_body_round_trip)
  with w' show ?thesis by (simp add: loadCachedStores_def)
qed

definition raw_store :: jsval where
  "raw_store =
     JObj [(''EntityID'', JStr ''A''), (''AddressLine'', JStr ''Trg 1''), (''PostalCode'', JStr ''1000''),
           (''Locality'', JStr ''Ljubljana''), (''Latitude'', JNum 46), (''Longitude'', JNum 14),
           (''INFOICON1'', JStr ''toString'')]"

definition env_maps :: env where
  "env_maps = env0\<lparr>fetch := (\<lambda>url. Response True (Some (JObj [(''d'', JObj [(''results'', JArr [raw_store])])])))\<rparr>"

text \<open>
  C7. Without a cache file \<open>loadCachedStores\<close> gives \<^verbatim>\<open>null\<close> and no error. After a
  refresh whose one raw entry has the amenity code \<^verbatim>\<open>toString\<close>, the list returned holds
  the inherited function in \<^verbatim>\<open>services\<close>, the file holds \<^verbatim>\<open>null\<close> in its place, and loading
  gives the list of the file, which is not the list that was returned.
\<close>

theorem refresh_load_differ:
  "loadCachedStores world0 = None
   \<and> fetchLidlStores env_maps world0
     = (Return [store_a\<lparr>services := [JFunction ''toString'']\<rparr>],
        world0\<lparr>cache_file := Some [store_a\<lparr>services := [JNull]\<rparr>]\<rparr>)
   \<and> loadCachedStores (snd (fetchLidlStores env_maps world0)) = Some [store_a\<lparr>services := [JNull]\<rparr>]"
  by code_simp

section \<open>A stock query that is refused\<close>

text \<open>
  C2, as it stands, fails: with a cached store, a product page and a stock endpoint that
  answers with a status that is not a success, the run of the program ends with the
  error thrown on line 89; the menu was printed once and the answer \<^verbatim>\<open>3\<close> is never read.
\<close>

theorem stock_failure_ends_run:
  "program env0 (world0\<lparr>answers := [''1'', product_url, [], ''3''], cache_file := Some [store_a]\<rparr>)
     = (Throw (Error ''Failed to fetch product availability''),
        world0\<lparr>answers := [''3''], cache_file := Some [store_a],
               console := [MsgMenu, MsgSearching (JStr ''Drill''), MsgCheckingStock]\<rparr>)"
  by code_simp

text \<open>
  C2, amended. Take any turn of the menu that chooses the product search and gets as
  far as the stock query, and let the answer to that query have a status that is not a
  success. Then \<open>fetchProductAvailability\<close> throws the error of line 89, and
  \<open>findInStockStores\<close>, \<open>productSearchFlow\<close> and \<open>mainMenu\<close> each end with that same error,
  in the world of the query with the line ``checking stock'' printed: nothing handles
  it and no further turn of the menu runs.
\<close>

theorem stock_failure_unhandled:
  assumes "askQuestion (print MsgMenu w) = (Return ''1'', w1)"
    and "askQuestion w1 = (Return url, w2)"
    and "fetchProductVariants env url w2 = (Return (Some r), w3)"
    and "truthy (fullTitle r)"
    and "choose_variant r (print (MsgSearching (fullTitle r)) w3) = (Return (Some selected), w4)"
    and "askQuestion w4 = (Return answer, w5)"
    and "postcode_loop answer w5 = (Return filterPostcode, w6)"
    and "filter_step (loadCachedStores w4) filterPostcode w6 = (Return (Some kept), w7)"
    and "ensure_stores env kept w7 = (Return stores, w8)"
    and "fetch env (stock_url env (selected_id selected) (array_join '','' (map store_id stores)))
           = Response False body"
  shows "fetchProductAvailability env (selected_id selected) (array_join '','' (map store_id stores))
           = Inl (Error ''Failed to fetch product availability'')
       \<and> findInStockStores env (selected_id selected) stores w8
           = (Throw (Error ''Failed to fetch product availability''), print MsgCheckingStock w8)
       \<and> productSearchFlow env w1
           = (Throw (Error ''Failed to fetch product availability''), print MsgCheckingStock w8)
       \<and> mainMenu env w
           = (Throw (Error ''Failed to fetch product availability''), print MsgCheckingStock w8)"
proof -
  let ?e = "Error ''Failed to fetch product availability''"
  have fpa: "fetchProductAvailability env (selected_id selected) (array_join '','' (map store_id stores)) = Inl ?e"
    using assms(10) by (simp add: fetchProductAvailability_def)
  then have fis: "findInStockStores env (selected_id selected) stores w8 = (Throw ?e, print MsgCheckingStock w8)"
    by (simp add: findInStockStores_def)
  have sp: "stock_phase env selected w4 = (Throw ?e, print MsgCheckingStock w8)"
    using assms(6-9) fis by (simp add: stock_phase_def)
  have psf: "productSearchFlow env w1 = (Throw ?e, print MsgCheckingStock w8)"
    using assms(2-5) sp by (simp add: productSearchFlow_def)
  have mt: "menu_turn env w = (Throw ?e, print MsgCheckingStock w8)"
    using assms(1) psf by (simp add: menu_turn_def)
  have mm: "mainMenu env w = (Throw ?e, print MsgCheckingStock w8)"
    using mt by (subst mainMenu.simps) simp
  from fpa fis psf mm show ?thesis by simp
qed

definition variant_page :: jsval where
  "variant_page =
     JObj [(''data'', JObj [(''&erp100'',
       JObj [(''variants'',
                JObj [(''s'', JObj [(''erpNumber'', JStr ''101''), (''fullTitle'', JStr ''Drill S'')]),
                      (''m'', JObj [(''articleId'', JStr ''102''), (''productTitle'', JStr ''Drill M'')])]),
             (''keyfacts'', JObj [(''fullTitle'', JStr ''Drill'')])])])]"

definition env_variants :: env where
  "env_variants = env0\<lparr>nuxt := (\<lambda>url. variant_page)\<rparr>"

definition drills :: product_ref where
  "drills =
     \<lparr>productId = ''100'',
      variants = [JObj [(''erpNumber'', JStr ''101''), (''fullTitle'', JStr ''Drill S'')],
                  JObj [(''articleId'', JStr ''102''), (''productTitle'', JStr ''Drill M'')]],
      fullTitle = JStr ''Drill''\<rparr>"

definition turn_console :: "message list" where
  "turn_console =
     [MsgMenu, MsgSearching (JStr ''Drill''), MsgFoundVariants 2,
      MsgVariantLine 1 (JStr ''Drill S'') (JStr ''101''),
      MsgVariantLine 2 (JStr ''Drill M'') (JStr ''102'')]"

theorem stock_failure_unhandled_witness:
  "mainMenu env_variants (cached\<lparr>answers := [''1'', product_url, ''2'', ''10'', ''1000'', ''3'']\<rparr>)
     = (Throw (Error ''Failed to fetch product availability''),
        cached\<lparr>answers := [''3''],
               console := turn_console @ [MsgInvalidPostcode, MsgCheckingStock]\<rparr>)"
proof -
  let ?w = "cached\<lparr>answers := [''1'', product_url, ''2'', ''10'', ''1000'', ''3'']\<rparr>"
  let ?w1 = "cached\<lparr>answers := [product_url, ''2'', ''10'', ''1000'', ''3''], console := [MsgMenu]\<rparr>"
  let ?w2 = "cached\<lparr>answers := [''2'', ''10'', ''1000'', ''3''], console := [MsgMenu]\<rparr>"
  let ?w4 = "cached\<lparr>answers := [''10'', ''1000'', ''3''], console := turn_console\<rparr>"
  let ?w5 = "cached\<lparr>answers := [''1000'', ''3''], console := turn_console\<rparr>"
  let ?w6 = "cached\<lparr>answers := [''3''], console := turn_console @ [MsgInvalidPostcode]\<rparr>"
  let ?v = "JObj [(''articleId'', JStr ''102''), (''productTitle'', JStr ''Drill M'')]"
  have 1: "askQuestion (print MsgMenu ?w) = (Return ''1'', ?w1)"
    by code_simp
  have 2: "askQuestion ?w1 = (Return product_url, ?w2)"
    by code_simp
  have 3: "fetchProductVariants env_variants product_url ?w2 = (Return (Some drills), ?w2)"
    by code_simp
  have 4: "truthy (fullTitle drills)"
    by code_simp
  have 5: "choose_variant drills (print (MsgSearching (fullTitle drills)) ?w2) = (Return (Some ?v), ?w4)"
    by code_simp
  have 6: "askQuestion ?w4 = (Return ''10'', ?w5)"
    by code_simp
  have 7: "postcode_loop ''10'' ?w5 = (Return ''1000'', ?w6)"
    by code_simp
  have 8: "filter_step (loadCachedStores ?w4) ''1000'' ?w6 = (Return (Some (Some [store_a])), ?w6)"
    by code_simp
  have 9: "ensure_stores env_variants (Some [store_a]) ?w6 = (Return [store_a], ?w6)"
    by code_simp
  have 10: "fetch env_variants (stock_url env_variants (selected_id ?v) (array_join '','' (map store_id [store_a])))
              = Response False None"
    by code_simp
  have "print MsgCheckingStock ?w6
          = cached\<lparr>answers := [''3''], console := turn_console @ [MsgInvalidPostcode, MsgCheckingStock]\<rparr>"
    by code_simp
  then show ?thesis
    using stock_failure_unhandled [OF 1 2 3 4 5 6 7 8 9 10] by simp
qed

end
